theory Spec2Isabelle
  imports Main "HOL-Library.Sublist"
begin

section \<open>Python values used by the CRM code\<close>

text \<open>
  Python strings are modelled as HOL strings; a \<^typ>\<open>char\<close> stands for the code point
  of the same number (0 to 255). On these code points the regular-expression class
  \<^verbatim>\<open>\d\<close> is exactly the ten ASCII digits.
\<close>

definition is_digit :: "char \<Rightarrow> bool" where
  "is_digit c = (c \<in> set ''0123456789'')"

definition digit_val :: "char \<Rightarrow> nat" where
  "digit_val c = of_char c - 48"

definition digit_char :: "nat \<Rightarrow> char" where
  "digit_char n = ''0123456789'' ! (n mod 10)"

text \<open>The line feed character.\<close>

definition LF :: char where
  "LF = CHR 0x0A"

text \<open>\<^verbatim>\<open>str(n)\<close> for a non-negative integer: its decimal digits, no leading zero.\<close>

fun str_nat :: "nat \<Rightarrow> string" where
  "str_nat n = (if n < 10 then [digit_char n] else str_nat (n div 10) @ [digit_char (n mod 10)])"

declare str_nat.simps [simp del]

text \<open>
  \<^verbatim>\<open>int(s)\<close> for a string, as Django's integer fields apply it to a supplied key:
  surrounding white space is dropped, one sign is allowed, then decimal digits
  with single underscores between digits. \<open>None\<close> stands for \<^verbatim>\<open>ValueError\<close>.
  The white space that \<^verbatim>\<open>int\<close> drops is tab, line feed, vertical tab, form feed,
  carriage return and space, and of the code points from 127 on those that are Unicode
  white space (133 and 160 below 256); the separators 28 to 31 are not dropped. A string
  with more than 4300 digits is refused (the interpreter's default limit).
\<close>

definition is_space :: "char \<Rightarrow> bool" where
  "is_space c = ((of_char c :: nat) \<in> set [9, 10, 11, 12, 13, 32, 133, 160])"

definition strip :: "string \<Rightarrow> string" where
  "strip s = rev (dropWhile is_space (rev (dropWhile is_space s)))"

fun py_digits :: "bool \<Rightarrow> nat \<Rightarrow> string \<Rightarrow> nat option" where
  "py_digits after_digit acc [] = (if after_digit then Some acc else None)"
| "py_digits after_digit acc (c # cs) =
     (if is_digit c then py_digits True (10 * acc + digit_val c) cs
      else if c = CHR ''_'' \<and> after_digit then py_digits False acc cs
      else None)"

definition py_int :: "string \<Rightarrow> int option" where
  "py_int s =
     (if length (filter is_digit s) > 4300 then None
      else
        (case strip s of
           [] \<Rightarrow> None
         | c # cs \<Rightarrow>
             if c = CHR ''+'' then map_option int (py_digits False 0 cs)
             else if c = CHR ''-'' then map_option (\<lambda>n. - int n) (py_digits False 0 cs)
             else map_option int (py_digits False 0 (c # cs))))"

text \<open>The exceptions that the modelled code paths can raise.\<close>

datatype exn = ValueError | IntegrityError | DoesNotExist | MultipleObjectsReturned | OverflowError

text \<open>\<^verbatim>\<open>str(e)\<close> of a caught exception; the wording is the library's.\<close>

fun str_exn :: "exn \<Rightarrow> string" where
  "str_exn ValueError = ''ValueError''"
| "str_exn IntegrityError = ''UNIQUE constraint failed: crm_customer.email''"
| "str_exn DoesNotExist = ''Customer matching query does not exist.''"
| "str_exn MultipleObjectsReturned = ''get() returned more than one Customer''"
| "str_exn OverflowError = ''Python int too large to convert to SQLite INTEGER''"

text \<open>\<^verbatim>\<open>x or ""\<close>, \<^verbatim>\<open>x or None\<close> and \<^verbatim>\<open>str(x)\<close> for an optional string.\<close>

definition or_empty :: "string option \<Rightarrow> string" where
  "or_empty x = (case x of None \<Rightarrow> [] | Some v \<Rightarrow> v)"

definition or_None :: "string option \<Rightarrow> string option" where
  "or_None x = (case x of None \<Rightarrow> None | Some v \<Rightarrow> if v = [] then None else Some v)"

definition str_opt :: "string option \<Rightarrow> string" where
  "str_opt x = (case x of None \<Rightarrow> ''None'' | Some v \<Rightarrow> v)"

text \<open>\<^verbatim>\<open>sep.join(xs)\<close>\<close>

fun join :: "string \<Rightarrow> string list \<Rightarrow> string" where
  "join sep [] = []"
| "join sep [x] = x"
| "join sep (x # y # ys) = x @ sep @ join sep (y # ys)"

section \<open>The phone pattern\<close>

text \<open>
  \<^verbatim>\<open>PHONE_RE = re.compile(r'^(\+\d{7,15}|\d{3}-\d{3}-\d{4})$')\<close>

  The pattern is kept as a syntax tree and run by a backtracking matcher that returns,
  in the order Python tries them, every state (characters consumed, rest of the subject)
  in which the expression can end. \<^verbatim>\<open>^\<close> holds at offset 0. Without
  \<^verbatim>\<open>re.MULTILINE\<close>, \<^verbatim>\<open>$\<close> holds at the end of the subject and also just
  before a line feed that is the subject's last character.
\<close>

datatype regex =
    Chr char
  | Digits nat nat
  | Seq regex regex
  | Alt regex regex
  | Bol
  | Eol

fun rep :: "nat \<Rightarrow> nat \<Rightarrow> (char \<Rightarrow> bool) \<Rightarrow> nat \<times> string \<Rightarrow> (nat \<times> string) list" where
  "rep lo 0 P st = (if lo = 0 then [st] else [])"
| "rep lo (Suc hi) P (n, []) = (if lo = 0 then [(n, [])] else [])"
| "rep lo (Suc hi) P (n, c # cs) =
     (if P c then rep (lo - 1) hi P (Suc n, cs) else []) @ (if lo = 0 then [(n, c # cs)] else [])"

fun rmatch :: "regex \<Rightarrow> nat \<times> string \<Rightarrow> (nat \<times> string) list" where
  "rmatch (Chr c) (n, s) = (case s of [] \<Rightarrow> [] | x # xs \<Rightarrow> if x = c then [(Suc n, xs)] else [])"
| "rmatch (Digits lo hi) st = rep lo hi is_digit st"
| "rmatch (Seq a b) st = concat (map (\<lambda>st'. rmatch b st') (rmatch a st))"
| "rmatch (Alt a b) st = rmatch a st @ rmatch b st"
| "rmatch Bol (n, s) = (if n = 0 then [(n, s)] else [])"
| "rmatch Eol (n, s) = (if s = [] \<or> s = [LF] then [(n, s)] else [])"

text \<open>\<^verbatim>\<open>bool(pattern.match(s))\<close>: some way of matching from offset 0 exists.\<close>

definition re_match :: "regex \<Rightarrow> string \<Rightarrow> bool" where
  "re_match r s = (rmatch r (0, s) \<noteq> [])"

definition PHONE_RE :: regex where
  "PHONE_RE =
     Seq Bol
       (Seq (Alt (Seq (Chr CHR ''+'') (Digits 7 15))
                 (Seq (Digits 3 3) (Seq (Chr CHR ''-'')
                   (Seq (Digits 3 3) (Seq (Chr CHR ''-'') (Digits 4 4))))))
            Eol)"

definition valid_phone :: "string \<Rightarrow> bool" where
  "valid_phone phone = (if phone = [] then True else re_match PHONE_RE phone)"

text \<open>
  The grammar as the specification words it: a plus sign followed by 7 to 15 digits, or
  exactly three digits, hyphen, three digits, hyphen, four digits, and nothing else.
\<close>

definition phone_grammar :: "string \<Rightarrow> bool" where
  "phone_grammar s =
     (case s of
        [] \<Rightarrow> False
      | c # cs \<Rightarrow>
          (c = CHR ''+'' \<and> 7 \<le> length cs \<and> length cs \<le> 15 \<and> list_all is_digit cs)
          \<or> (length s = 12 \<and> list_all is_digit (take 3 s) \<and> s ! 3 = CHR ''-''
              \<and> list_all is_digit (take 3 (drop 4 s)) \<and> s ! 7 = CHR ''-''
              \<and> list_all is_digit (drop 8 s)))"

text \<open>The two shapes of the grammar, as decompositions of the string.\<close>

definition plus_form :: "string \<Rightarrow> bool" where
  "plus_form t =
     (\<exists>ds. t = CHR ''+'' # ds \<and> 7 \<le> length ds \<and> length ds \<le> 15 \<and> list_all is_digit ds)"

definition dash_form :: "string \<Rightarrow> bool" where
  "dash_form t =
     (\<exists>a b c. t = a @ CHR ''-'' # b @ CHR ''-'' # c \<and> length a = 3 \<and> length b = 3
        \<and> length c = 4 \<and> list_all is_digit a \<and> list_all is_digit b \<and> list_all is_digit c)"

section \<open>Entities and the entity store\<close>

text \<open>
  The three models of \<^verbatim>\<open>crm/models.py\<close>. A primary key is \<open>None\<close> on an instance
  that has not been saved. A \<^verbatim>\<open>DecimalField\<close> with two decimal places is held as its
  number of hundredths, so 10.00 is 1000 and 5.50 is 550.
  The automatic time stamps of \<^verbatim>\<open>Customer\<close> play no part in any operation below and
  are left out.
\<close>

record Customer =
  c_id :: "nat option"
  c_name :: string
  c_email :: string
  c_phone :: "string option"

record Product =
  p_id :: "nat option"
  p_name :: string
  p_price :: int
  p_stock :: nat

record Order =
  o_id :: "nat option"
  o_customer :: "nat option"
  o_total_amount :: int
  o_order_date :: nat

text \<open>
  The store holds one table per model and the table of the many-to-many relation
  \<^verbatim>\<open>Order.products\<close>, whose rows are pairs (order key, product key). A savepoint is
  a copy of the store; rolling back puts the copy in place again.
\<close>

record store =
  customer_rows :: "Customer list"
  product_rows :: "Product list"
  order_rows :: "Order list"
  order_products_rows :: "(nat \<times> nat) list"

text \<open>The key given to a new row: larger than every key in the table.\<close>

definition next_pk :: "nat option list \<Rightarrow> nat" where
  "next_pk ks = Suc (fold max (map (\<lambda>k. case k of None \<Rightarrow> 0 | Some i \<Rightarrow> i) ks) 0)"

text \<open>\<^verbatim>\<open>Customer.objects.filter(email=e).exists()\<close>\<close>

definition Customer_email_exists :: "store \<Rightarrow> string \<Rightarrow> bool" where
  "Customer_email_exists s e = (e \<in> set (map c_email (customer_rows s)))"

text \<open>
  \<^verbatim>\<open>Customer.objects.create(name=n, email=e, phone=p)\<close>: the column
  \<^verbatim>\<open>email\<close> is declared \<^verbatim>\<open>unique=True\<close>, so the insert of a second row with
  the same email raises \<^verbatim>\<open>IntegrityError\<close>.
\<close>

definition new_customer :: "store \<Rightarrow> string \<Rightarrow> string \<Rightarrow> string option \<Rightarrow> Customer" where
  "new_customer s n e p =
     \<lparr>c_id = Some (next_pk (map c_id (customer_rows s))), c_name = n, c_email = e, c_phone = p\<rparr>"

definition add_customer :: "store \<Rightarrow> Customer \<Rightarrow> store" where
  "add_customer s c = s\<lparr>customer_rows := customer_rows s @ [c]\<rparr>"

definition Customer_objects_create ::
  "store \<Rightarrow> string \<Rightarrow> string \<Rightarrow> string option \<Rightarrow> exn + store \<times> Customer" where
  "Customer_objects_create s n e p =
     (if Customer_email_exists s e then Inl IntegrityError
      else let c = new_customer s n e p in Inr (add_customer s c, c))"

section \<open>Customer mutations\<close>

record CustomerInput =
  ci_name :: string
  ci_email :: string
  ci_phone :: "string option"

record CreateCustomer =
  cc_customer :: "Customer option"
  cc_message :: string
  cc_errors :: "string list"

text \<open>
  \<^verbatim>\<open>CreateCustomer.mutate\<close>. The result is \<open>Inl e\<close> when the call raises \<open>e\<close>
  (the store is then as before) and otherwise the new store with the payload.
\<close>

definition CreateCustomer_mutate :: "store \<Rightarrow> CustomerInput \<Rightarrow> exn + store \<times> CreateCustomer" where
  "CreateCustomer_mutate s inp =
     (let errors0 = [];
          errors1 = (if Customer_email_exists s (ci_email inp)
                     then errors0 @ [''Email already exists.''] else errors0);
          errors2 = (if \<not> valid_phone (or_empty (ci_phone inp))
                     then errors1 @ [''Invalid phone format. Use +1234567890 or 123-456-7890.'']
                     else errors1)
      in if errors2 \<noteq> []
         then Inr (s, \<lparr>cc_customer = None, cc_message = ''Failed'', cc_errors = errors2\<rparr>)
         else
           (case Customer_objects_create s (ci_name inp) (ci_email inp) (or_None (ci_phone inp)) of
              Inl e \<Rightarrow> Inl e
            | Inr (s', c) \<Rightarrow>
                Inr (s', \<lparr>cc_customer = Some c, cc_message = ''Customer created successfully.'',
                          cc_errors = []\<rparr>)))"

record BulkCreateCustomers =
  bc_customers :: "Customer list"
  bc_errors :: "string list"

definition row_tag :: "nat \<Rightarrow> string" where
  "row_tag idx = ''Row '' @ str_nat idx @ '': ''"

text \<open>The checks made on one row, in the order of the source.\<close>

definition row_errs :: "store \<Rightarrow> nat \<Rightarrow> CustomerInput \<Rightarrow> string list" where
  "row_errs s idx data =
     (if ci_name data = [] then [row_tag idx @ ''Name is required.''] else [])
     @ (if ci_email data = [] then [row_tag idx @ ''Email is required.'']
        else if Customer_email_exists s (ci_email data)
        then [row_tag idx @ ''Email already exists ('' @ ci_email data @ '').'']
        else [])
     @ (if \<not> valid_phone (or_empty (ci_phone data))
        then [row_tag idx @ ''Invalid phone format ('' @ str_opt (ci_phone data) @ '').'']
        else [])"

text \<open>
  The loop of \<^verbatim>\<open>BulkCreateCustomers.mutate\<close> over \<^verbatim>\<open>enumerate(input)\<close>; the state
  is the store, the list \<^verbatim>\<open>created\<close> and the list \<^verbatim>\<open>errors\<close>. Each row takes a
  savepoint \<open>sp\<close> first and goes back to it on either failure path.
\<close>

fun bulk_loop ::
  "nat \<Rightarrow> CustomerInput list \<Rightarrow> store \<times> Customer list \<times> string list
     \<Rightarrow> store \<times> Customer list \<times> string list" where
  "bulk_loop idx [] st = st"
| "bulk_loop idx (data # rest) (s, created, errors) =
     (let sp = s; errs = row_errs s idx data
      in if errs \<noteq> [] then bulk_loop (Suc idx) rest (sp, created, errors @ errs)
         else
           (case Customer_objects_create s (ci_name data) (ci_email data) (or_None (ci_phone data)) of
              Inr (s', c) \<Rightarrow> bulk_loop (Suc idx) rest (s', created @ [c], errors)
            | Inl e \<Rightarrow> bulk_loop (Suc idx) rest (sp, created, errors @ [row_tag idx @ str_exn e])))"

definition BulkCreateCustomers_mutate ::
  "store \<Rightarrow> CustomerInput list \<Rightarrow> store \<times> BulkCreateCustomers" where
  "BulkCreateCustomers_mutate s input =
     (case bulk_loop 0 input (s, [], []) of
        (s', created, errors) \<Rightarrow> (s', \<lparr>bc_customers = created, bc_errors = errors\<rparr>))"

section \<open>Orders\<close>

text \<open>
  \<^verbatim>\<open>Customer.objects.get(pk=k)\<close> for a key that arrives as a \<^verbatim>\<open>graphene.ID\<close>, a
  string. The key column is an integer field: the lookup converts the string with
  \<^verbatim>\<open>int\<close> and raises \<^verbatim>\<open>ValueError\<close> when that fails; otherwise it raises
  \<^verbatim>\<open>DoesNotExist\<close> when no row has the key (an integer beyond 64 bits is the key of
  no row).
\<close>

definition Customer_objects_get :: "store \<Rightarrow> string \<Rightarrow> exn + Customer" where
  "Customer_objects_get s k =
     (case py_int k of
        None \<Rightarrow> Inl ValueError
      | Some i \<Rightarrow>
          (case filter (\<lambda>c. map_option int (c_id c) = Some i) (customer_rows s) of
             [] \<Rightarrow> Inl DoesNotExist
           | [c] \<Rightarrow> Inr c
           | _ \<Rightarrow> Inl MultipleObjectsReturned))"

text \<open>
  \<^verbatim>\<open>Product.objects.filter(id__in=ks)\<close>, evaluated: every key is converted as above
  when the query is built; when the query runs, SQLite takes integers of 64 bits and the
  driver raises \<^verbatim>\<open>OverflowError\<close> for any other; the rows are those of the product
  table whose key is among the keys given, each row once.
\<close>

definition int64 :: "int \<Rightarrow> bool" where
  "int64 i = (- (2 ^ 63) \<le> i \<and> i < 2 ^ 63)"

fun those_ints :: "string list \<Rightarrow> int list option" where
  "those_ints [] = Some []"
| "those_ints (k # ks) =
     (case py_int k of
        None \<Rightarrow> None
      | Some i \<Rightarrow> (case those_ints ks of None \<Rightarrow> None | Some is \<Rightarrow> Some (i # is)))"

definition Product_objects_filter_id_in :: "store \<Rightarrow> string list \<Rightarrow> exn + Product list" where
  "Product_objects_filter_id_in s ks =
     (case those_ints ks of
        None \<Rightarrow> Inl ValueError
      | Some is \<Rightarrow>
          if \<not> list_all int64 is then Inl OverflowError
          else Inr (filter (\<lambda>p. case p_id p of None \<Rightarrow> False | Some i \<Rightarrow> int i \<in> set is)
                      (product_rows s)))"

text \<open>
  \<^verbatim>\<open>order.products.all()\<close>: the related manager of a many-to-many field cannot be
  built for an instance without a primary key; Django raises \<^verbatim>\<open>ValueError\<close>.
  For a saved instance the result is the products that the relation table links to it.
\<close>

definition Order_products_all :: "store \<Rightarrow> Order \<Rightarrow> exn + Product list" where
  "Order_products_all s obj =
     (case o_id obj of
        None \<Rightarrow> Inl ValueError
      | Some i \<Rightarrow>
          Inr (filter (\<lambda>p. case p_id p of None \<Rightarrow> False
                                | Some j \<Rightarrow> (i, j) \<in> set (order_products_rows s))
                 (product_rows s)))"

text \<open>
  \<^verbatim>\<open>order.products.set(ps)\<close>: afterwards the relation links the order to exactly
  the products of \<open>ps\<close>.
\<close>

definition Order_products_set :: "store \<Rightarrow> Order \<Rightarrow> Product list \<Rightarrow> exn + store" where
  "Order_products_set s obj ps =
     (case o_id obj of
        None \<Rightarrow> Inl ValueError
      | Some i \<Rightarrow>
          Inr (s\<lparr>order_products_rows :=
                   filter (\<lambda>r. fst r \<noteq> i) (order_products_rows s)
                   @ concat (map (\<lambda>p. case p_id p of None \<Rightarrow> [] | Some j \<Rightarrow> [(i, j)]) ps)\<rparr>))"

text \<open>
  \<^verbatim>\<open>models.Model.save\<close>, the inherited method: an instance without a key is
  inserted under a new key, an instance with a key replaces its row.
\<close>

definition Model_save :: "store \<Rightarrow> Order \<Rightarrow> store \<times> Order" where
  "Model_save s obj =
     (case o_id obj of
        None \<Rightarrow>
          let obj' = obj\<lparr>o_id := Some (next_pk (map o_id (order_rows s)))\<rparr>
          in (s\<lparr>order_rows := order_rows s @ [obj']\<rparr>, obj')
      | Some i \<Rightarrow>
          (s\<lparr>order_rows := map (\<lambda>r. if o_id r = Some i then obj else r) (order_rows s)\<rparr>, obj))"

text \<open>
  \<^verbatim>\<open>Order.save\<close> of \<^verbatim>\<open>crm/models.py\<close>:
  \<^verbatim>\<open>
    if not self.total_amount:
        self.total_amount = sum(product.price for product in self.products.all())
    super().save(*args, **kwargs)
  \<close>
  A zero \<^verbatim>\<open>Decimal\<close> is false in Python, so the branch is taken for the default
  total 0.00.
\<close>

definition Order_save :: "store \<Rightarrow> Order \<Rightarrow> exn + store \<times> Order" where
  "Order_save s obj =
     (if o_total_amount obj = 0
      then (case Order_products_all s obj of
              Inl e \<Rightarrow> Inl e
            | Inr ps \<Rightarrow> Inr (Model_save s (obj\<lparr>o_total_amount := sum_list (map p_price ps)\<rparr>)))
      else Inr (Model_save s obj))"

text \<open>
  \<^verbatim>\<open>Order.objects.create(customer=c, order_date=d)\<close>: builds the instance, with
  the field default 0.00 for \<^verbatim>\<open>total_amount\<close> and no key yet, and calls its
  \<^verbatim>\<open>save\<close>.
\<close>

definition Order_objects_create :: "store \<Rightarrow> Customer \<Rightarrow> nat \<Rightarrow> exn + store \<times> Order" where
  "Order_objects_create s c d =
     Order_save s \<lparr>o_id = None, o_customer = c_id c, o_total_amount = 0, o_order_date = d\<rparr>"

text \<open>\<^verbatim>\<open>qs.aggregate(s=Sum("price"))["s"]\<close>: \<open>None\<close> over no rows.\<close>

definition Sum_price :: "Product list \<Rightarrow> int option" where
  "Sum_price ps = (if ps = [] then None else Some (sum_list (map p_price ps)))"

record OrderInput =
  oi_customer_id :: string
  oi_product_ids :: "string list"
  oi_order_date :: "nat option"

record CreateOrder =
  co_order :: "Order option"
  co_errors :: "string list"

text \<open>
  The body of the \<^verbatim>\<open>with transaction.atomic()\<close> block of
  \<^verbatim>\<open>CreateOrder.mutate\<close>. An exception leaves the block, which undoes its writes:
  the result \<open>Inl e\<close> carries no store.
\<close>

definition create_order_atomic ::
  "store \<Rightarrow> Customer \<Rightarrow> nat \<Rightarrow> Product list \<Rightarrow> exn + store \<times> Order" where
  "create_order_atomic s customer odt products_qs =
     (case Order_objects_create s customer odt of
        Inl e \<Rightarrow> Inl e
      | Inr (s1, order) \<Rightarrow>
          (case Order_products_set s1 order products_qs of
             Inl e \<Rightarrow> Inl e
           | Inr s2 \<Rightarrow>
               let total = (case Sum_price products_qs of
                              None \<Rightarrow> 0
                            | Some t \<Rightarrow> if t = 0 then 0 else t)
               in Order_save s2 (order\<lparr>o_total_amount := total\<rparr>)))"

text \<open>
  \<^verbatim>\<open>CreateOrder.mutate\<close>; \<open>now\<close> is the value of \<^verbatim>\<open>timezone.now()\<close>. Only
  \<^verbatim>\<open>Customer.DoesNotExist\<close> is caught around the customer lookup; every other
  exception leaves the call.
\<close>

definition CreateOrder_mutate :: "nat \<Rightarrow> store \<Rightarrow> OrderInput \<Rightarrow> exn + store \<times> CreateOrder" where
  "CreateOrder_mutate now s inp =
     (case Customer_objects_get s (oi_customer_id inp) of
        Inl DoesNotExist \<Rightarrow>
          Inr (s, \<lparr>co_order = None,
                   co_errors = [''Invalid customer ID: '' @ oi_customer_id inp]\<rparr>)
      | Inl e \<Rightarrow> Inl e
      | Inr customer \<Rightarrow>
          if oi_product_ids inp = []
          then Inr (s, \<lparr>co_order = None,
                        co_errors = [''At least one product must be selected.'']\<rparr>)
          else
            (case Product_objects_filter_id_in s (oi_product_ids inp) of
               Inl e \<Rightarrow> Inl e
             | Inr products_qs \<Rightarrow>
                 let found_ids = map (\<lambda>p. case p_id p of None \<Rightarrow> ''None'' | Some i \<Rightarrow> str_nat i)
                                   products_qs;
                     missing = filter (\<lambda>pid. pid \<notin> set found_ids) (oi_product_ids inp)
                 in if missing \<noteq> []
                    then Inr (s, \<lparr>co_order = None,
                                  co_errors = [''Invalid product ID(s): '' @ join '', '' missing]\<rparr>)
                    else
                      let odt = (case oi_order_date inp of None \<Rightarrow> now | Some d \<Rightarrow> d)
                      in (case create_order_atomic s customer odt products_qs of
                            Inl e \<Rightarrow> Inl e
                          | Inr (s', order) \<Rightarrow>
                              Inr (s', \<lparr>co_order = Some order, co_errors = []\<rparr>))))"

section \<open>Filters\<close>







text \<open>
  \<^verbatim>\<open>queryset.filter(products__id=v)\<close> joins each row of the queryset with the rows
  of the relation table that belong to it and keeps one copy of the order per joined row
  whose product key is \<open>v\<close>; \<^verbatim>\<open>.distinct()\<close> then drops repeated rows.
\<close>

definition filter_products_id :: "store \<Rightarrow> Order list \<Rightarrow> int \<Rightarrow> Order list" where
  "filter_products_id s queryset v =
     concat (map (\<lambda>ord. map (\<lambda>r. ord)
                    (filter (\<lambda>r. o_id ord = Some (fst r) \<and> int (snd r) = v) (order_products_rows s)))
               queryset)"

text \<open>\<^verbatim>\<open>OrderFilter.filter_product_id\<close>; the number supplied is a product key.\<close>

definition filter_product_id :: "store \<Rightarrow> Order list \<Rightarrow> int option \<Rightarrow> Order list" where
  "filter_product_id s queryset v =
     (case v of
        None \<Rightarrow> queryset
      | Some x \<Rightarrow> remdups (filter_products_id s queryset x))"

section \<open>Request sequences and sample data\<close>

text \<open>
  A sequence of customer mutations run one after the other against the store. A request
  that raises leaves the store as it was.
\<close>

datatype request =
    ReqCreateCustomer CustomerInput
  | ReqBulkCreateCustomers "CustomerInput list"

fun apply_request :: "store \<Rightarrow> request \<Rightarrow> store" where
  "apply_request s (ReqCreateCustomer inp) =
     (case CreateCustomer_mutate s inp of Inl e \<Rightarrow> s | Inr (s', payload) \<Rightarrow> s')"
| "apply_request s (ReqBulkCreateCustomers rows) = fst (BulkCreateCustomers_mutate s rows)"

definition apply_requests :: "store \<Rightarrow> request list \<Rightarrow> store" where
  "apply_requests s rs = fold (\<lambda>r s'. apply_request s' r) rs s"

text \<open>A store with one customer and the two products priced 10.00 and 5.50.\<close>

definition alice :: Customer where
  "alice = \<lparr>c_id = Some 1, c_name = ''Alice'', c_email = ''alice@example.com'',
            c_phone = Some ''+1234567890''\<rparr>"

definition example_store :: store where
  "example_store =
     \<lparr>customer_rows = [alice],
      product_rows = [\<lparr>p_id = Some 1, p_name = ''P1'', p_price = 1000, p_stock = 0\<rparr>,
                      \<lparr>p_id = Some 2, p_name = ''P2'', p_price = 550, p_stock = 0\<rparr>],
      order_rows = [], order_products_rows = []\<rparr>"

definition bob_row :: CustomerInput where
  "bob_row = \<lparr>ci_name = ''Bob'', ci_email = ''bob@example.com'', ci_phone = Some ''123-456-7890''\<rparr>"

definition dup_row :: CustomerInput where
  "dup_row = \<lparr>ci_name = ''Al'', ci_email = ''alice@example.com'', ci_phone = None\<rparr>"

definition bad_phone_row :: CustomerInput where
  "bad_phone_row = \<lparr>ci_name = ''Carl'', ci_email = ''carol@example.com'', ci_phone = Some ''12345''\<rparr>"

definition carol_row :: CustomerInput where
  "carol_row = \<lparr>ci_name = ''Carol'', ci_email = ''carol@example.com'', ci_phone = None\<rparr>"


text \<open>An order linked to both products, once each, in a queryset that yields it twice.\<close>

definition order_1 :: Order where
  "order_1 = \<lparr>o_id = Some 1, o_customer = Some 1, o_total_amount = 1550, o_order_date = 0\<rparr>"

definition store_with_order :: store where
  "store_with_order = example_store\<lparr>order_rows := [order_1], order_products_rows := [(1, 1), (1, 2)]\<rparr>"

section \<open>Customer creation\<close>

lemma str_nat_1: "str_nat (Suc 0) = ''1''"
  by (simp add: str_nat.simps digit_char_def)

lemma row_tag_1: "row_tag (Suc 0) = ''Row 1: ''"
  by (simp add: row_tag_def str_nat_1)

text \<open>After the uniqueness check has passed, the insert cannot fail.\<close>

lemma create_after_check:
  "\<not> Customer_email_exists s e \<Longrightarrow>
   Customer_objects_create s n e p = Inr (add_customer s (new_customer s n e p), new_customer s n e p)"
  by (simp add: Customer_objects_create_def Let_def)

lemma exists_add:
  "Customer_email_exists (add_customer s c) e \<longleftrightarrow> Customer_email_exists s e \<or> e = c_email c"
  by (auto simp: Customer_email_exists_def add_customer_def)

text \<open>
  C2 (fails on the code). The claim: a \<^verbatim>\<open>CreateCustomer\<close> request with an empty name
  creates nothing and returns a null customer with a non-empty error list. The code never
  looks at the name: on the sample store, the request with name \<^verbatim>\<open>""\<close>, a fresh
  email and no phone inserts a customer whose name is empty and returns it with an empty
  error list. \<^verbatim>\<open>BulkCreateCustomers\<close> does reject such a row (\<^verbatim>\<open>Name is required.\<close>).
\<close>

theorem CreateCustomer_accepts_empty_name:
  "CreateCustomer_mutate example_store
       \<lparr>ci_name = [], ci_email = ''bob@example.com'', ci_phone = None\<rparr> =
     Inr (add_customer example_store
            \<lparr>c_id = Some 2, c_name = [], c_email = ''bob@example.com'', c_phone = None\<rparr>,
          \<lparr>cc_customer =
             Some \<lparr>c_id = Some 2, c_name = [], c_email = ''bob@example.com'', c_phone = None\<rparr>,
           cc_message = ''Customer created successfully.'', cc_errors = []\<rparr>)"
  by code_simp

text \<open>
  C3. \<^verbatim>\<open>CreateCustomer\<close> runs the email-uniqueness check and the phone-format check
  whatever the other one found: when the email is already taken and the phone is malformed,
  the response has no customer and exactly the two messages, email first, and the store is
  unchanged.
\<close>

theorem CreateCustomer_collects_both_errors:
  assumes "Customer_email_exists s (ci_email inp)"
      and "\<not> valid_phone (or_empty (ci_phone inp))"
  shows "CreateCustomer_mutate s inp =
           Inr (s, \<lparr>cc_customer = None, cc_message = ''Failed'',
                    cc_errors = [''Email already exists.'',
                                 ''Invalid phone format. Use +1234567890 or 123-456-7890.'']\<rparr>)"
  using assms by (simp add: CreateCustomer_mutate_def)

theorem CreateCustomer_collects_both_errors_witness:
  "Customer_email_exists example_store (ci_email (dup_row\<lparr>ci_phone := Some ''12345''\<rparr>))
   \<and> \<not> valid_phone (or_empty (ci_phone (dup_row\<lparr>ci_phone := Some ''12345''\<rparr>)))
   \<and> CreateCustomer_mutate example_store (dup_row\<lparr>ci_phone := Some ''12345''\<rparr>) =
         Inr (example_store,
              \<lparr>cc_customer = None, cc_message = ''Failed'',
               cc_errors = [''Email already exists.'',
                            ''Invalid phone format. Use +1234567890 or 123-456-7890.'']\<rparr>)"
proof -
  have h1: "Customer_email_exists example_store (ci_email (dup_row\<lparr>ci_phone := Some ''12345''\<rparr>))"
    by code_simp
  have h2: "\<not> valid_phone (or_empty (ci_phone (dup_row\<lparr>ci_phone := Some ''12345''\<rparr>)))"
    by code_simp
  from CreateCustomer_collects_both_errors[OF h1 h2] h1 h2 show ?thesis by simp
qed

section \<open>Bulk creation\<close>

lemma row_errs_Nil_iff:
  "row_errs s idx r = [] \<longleftrightarrow>
     ci_name r \<noteq> [] \<and> ci_email r \<noteq> [] \<and> \<not> Customer_email_exists s (ci_email r)
     \<and> valid_phone (or_empty (ci_phone r))"
  by (auto simp: row_errs_def)

text \<open>
  One turn of the loop: a row with findings leaves the store at its savepoint and the loop
  goes on with the next row; a row without findings is inserted.
\<close>

lemma bulk_loop_step:
  "bulk_loop idx (r # rs) (s, created, errors) =
     (let c = new_customer s (ci_name r) (ci_email r) (or_None (ci_phone r))
      in if row_errs s idx r = []
         then bulk_loop (Suc idx) rs (add_customer s c, created @ [c], errors)
         else bulk_loop (Suc idx) rs (s, created, errors @ row_errs s idx r))"
  by (simp add: Let_def create_after_check row_errs_Nil_iff)

lemma bulk_loop_store:
  "bulk_loop idx rs (s, created, errors) = (s', created', errors') \<Longrightarrow>
   \<exists>new. created' = created @ new \<and> customer_rows s' = customer_rows s @ new"
proof (induction rs arbitrary: idx s created errors)
  case Nil
  then show ?case by simp
next
  case (Cons r rs)
  let ?c = "new_customer s (ci_name r) (ci_email r) (or_None (ci_phone r))"
  show ?case
  proof (cases "row_errs s idx r = []")
    case True
    with Cons.prems
    have "bulk_loop (Suc idx) rs (add_customer s ?c, created @ [?c], errors) = (s', created', errors')"
      by (simp add: bulk_loop_step Let_def del: bulk_loop.simps)
    from Cons.IH[OF this] show ?thesis by (auto simp: add_customer_def)
  next
    case False
    with Cons.prems
    have "bulk_loop (Suc idx) rs (s, created, errors @ row_errs s idx r) = (s', created', errors')"
      by (simp add: bulk_loop_step Let_def del: bulk_loop.simps)
    from Cons.IH[OF this] show ?thesis .
  qed
qed

lemma bulk_three_rows:
  assumes v0: "ci_name r0 \<noteq> []" "ci_email r0 \<noteq> []" "\<not> Customer_email_exists s (ci_email r0)"
              "valid_phone (or_empty (ci_phone r0))"
      and d1: "ci_name r1 \<noteq> []" "ci_email r1 \<noteq> []" "valid_phone (or_empty (ci_phone r1))"
              "Customer_email_exists s (ci_email r1) \<or> ci_email r1 = ci_email r0"
      and v2: "ci_name r2 \<noteq> []" "ci_email r2 \<noteq> []" "\<not> Customer_email_exists s (ci_email r2)"
              "ci_email r2 \<noteq> ci_email r0" "valid_phone (or_empty (ci_phone r2))"
  shows "BulkCreateCustomers_mutate s [r0, r1, r2] =
           (let c0 = new_customer s (ci_name r0) (ci_email r0) (or_None (ci_phone r0));
                s1 = add_customer s c0;
                c2 = new_customer s1 (ci_name r2) (ci_email r2) (or_None (ci_phone r2))
            in (add_customer s1 c2,
                \<lparr>bc_customers = [c0, c2],
                 bc_errors = [''Row 1: Email already exists ('' @ ci_email r1 @ '').'']\<rparr>))"
proof -
  let ?c0 = "new_customer s (ci_name r0) (ci_email r0) (or_None (ci_phone r0))"
  let ?s1 = "add_customer s ?c0"
  have e0: "row_errs s 0 r0 = []"
    using v0 by (simp add: row_errs_Nil_iff)
  have ex1: "Customer_email_exists ?s1 (ci_email r1)"
    using d1 by (auto simp: exists_add new_customer_def)
  have e1: "row_errs ?s1 (Suc 0) r1 = [''Row 1: Email already exists ('' @ ci_email r1 @ '').'']"
    using d1 ex1 by (simp add: row_errs_def row_tag_1)
  have e2: "row_errs ?s1 (Suc (Suc 0)) r2 = []"
    using v2 by (simp add: row_errs_Nil_iff exists_add new_customer_def)
  show ?thesis
    unfolding BulkCreateCustomers_mutate_def
    by (simp only: bulk_loop_step Let_def e0 e1 e2 if_True) (simp add: Let_def)
qed

text \<open>The loop over a batch in two parts is the loop over the parts in turn.\<close>

lemma bulk_loop_append:
  "bulk_loop idx (xs @ ys) st = bulk_loop (idx + length xs) ys (bulk_loop idx xs st)"
proof (induction xs arbitrary: idx st)
  case Nil
  then show ?case by simp
next
  case (Cons x xs)
  obtain s created errors where st: "st = (s, created, errors)" by (cases st)
  show ?case
    unfolding st append_Cons bulk_loop_step Let_def
    by (simp add: Cons.IH del: bulk_loop.simps(2))
qed

lemma Bulk_Nil: "BulkCreateCustomers_mutate s [] = (s, \<lparr>bc_customers = [], bc_errors = []\<rparr>)"
  by (simp add: BulkCreateCustomers_mutate_def)

lemma Bulk_snoc:
  "BulkCreateCustomers_mutate s (rows @ [r]) =
     (case BulkCreateCustomers_mutate s rows of
        (s', p) \<Rightarrow>
          if row_errs s' (length rows) r = []
          then let c = new_customer s' (ci_name r) (ci_email r) (or_None (ci_phone r))
               in (add_customer s' c, p\<lparr>bc_customers := bc_customers p @ [c]\<rparr>)
          else (s', p\<lparr>bc_errors := bc_errors p @ row_errs s' (length rows) r\<rparr>))"
proof -
  obtain s' created errors where run: "bulk_loop 0 rows (s, [], []) = (s', created, errors)"
    by (cases "bulk_loop 0 rows (s, [], [])") auto
  have "bulk_loop 0 (rows @ [r]) (s, [], []) = bulk_loop (length rows) [r] (s', created, errors)"
    by (simp add: bulk_loop_append run del: bulk_loop.simps(2))
  then show ?thesis
    unfolding BulkCreateCustomers_mutate_def run
    by (simp add: bulk_loop_step Let_def del: bulk_loop.simps(2))
qed

lemma row_errs_tagged:
  "e \<in> set (row_errs s idx r) \<Longrightarrow> prefix (row_tag idx) e"
  by (auto simp: row_errs_def split: if_splits)

lemma bulk_three_rows_any_failure:
  assumes v0: "ci_name ra \<noteq> []" "ci_email ra \<noteq> []" "\<not> Customer_email_exists s (ci_email ra)"
              "valid_phone (or_empty (ci_phone ra))"
      and f1: "row_errs (add_customer s (new_customer s (ci_name ra) (ci_email ra) (or_None (ci_phone ra))))
                 (Suc 0) rb \<noteq> []"
      and v2: "ci_name rc \<noteq> []" "ci_email rc \<noteq> []" "\<not> Customer_email_exists s (ci_email rc)"
              "ci_email rc \<noteq> ci_email ra" "valid_phone (or_empty (ci_phone rc))"
  shows "BulkCreateCustomers_mutate s [ra, rb, rc] =
           (let c0 = new_customer s (ci_name ra) (ci_email ra) (or_None (ci_phone ra));
                s1 = add_customer s c0;
                c2 = new_customer s1 (ci_name rc) (ci_email rc) (or_None (ci_phone rc))
            in (add_customer s1 c2,
                \<lparr>bc_customers = [c0, c2], bc_errors = row_errs s1 (Suc 0) rb\<rparr>))"
proof -
  let ?c0 = "new_customer s (ci_name ra) (ci_email ra) (or_None (ci_phone ra))"
  let ?s1 = "add_customer s ?c0"
  have e0: "row_errs s 0 ra = []"
    using v0 by (simp add: row_errs_Nil_iff)
  have e2: "row_errs ?s1 (Suc (Suc 0)) rc = []"
    using v2 by (simp add: row_errs_Nil_iff exists_add new_customer_def)
  show ?thesis
    unfolding BulkCreateCustomers_mutate_def
    using f1 by (simp add: bulk_loop_step Let_def e0 e2 del: bulk_loop.simps(2))
qed


text \<open>
  C1. \<^verbatim>\<open>BulkCreateCustomers\<close> handles every row of every batch on its own. The empty
  batch changes nothing. A batch followed by one more row gives what the batch gives, and
  then that row is checked against the store as the batch left it (the customers that were
  there before and the rows of the batch that succeeded): if it has findings, only its
  messages are added and the store stays as it was, otherwise its customer is added to the
  store and to the created list. A row has no finding exactly when its name and email are
  present, the email is not in the store and the phone is acceptable; every message of row
  \<open>idx\<close> starts with \<^verbatim>\<open>Row idx:\<close>. The store after a batch is the store before
  followed by exactly the customers reported as created. For three rows of which the first
  and third are valid and the second fails for any reason, even with the email of the third,
  the payload holds exactly the customers of rows 0 and 2 and the messages of row 1; when
  the second row's only fault is an email already in the store or equal to that of row 0,
  there is exactly one message, tagged \<^verbatim>\<open>Row 1\<close>.
\<close>

theorem BulkCreateCustomers_partial_success:
  "BulkCreateCustomers_mutate s [] = (s, \<lparr>bc_customers = [], bc_errors = []\<rparr>)
   \<and> BulkCreateCustomers_mutate s (rows @ [r]) =
       (case BulkCreateCustomers_mutate s rows of
          (s', p) \<Rightarrow>
            if row_errs s' (length rows) r = []
            then let c = new_customer s' (ci_name r) (ci_email r) (or_None (ci_phone r))
                 in (add_customer s' c, p\<lparr>bc_customers := bc_customers p @ [c]\<rparr>)
            else (s', p\<lparr>bc_errors := bc_errors p @ row_errs s' (length rows) r\<rparr>))
   \<and> (row_errs s idx r = [] \<longleftrightarrow>
        ci_name r \<noteq> [] \<and> ci_email r \<noteq> [] \<and> \<not> Customer_email_exists s (ci_email r)
        \<and> valid_phone (or_empty (ci_phone r)))
   \<and> (\<forall>e \<in> set (row_errs s idx r). prefix (''Row '' @ str_nat idx @ '': '') e)
   \<and> customer_rows (fst (BulkCreateCustomers_mutate s rows)) =
       customer_rows s @ bc_customers (snd (BulkCreateCustomers_mutate s rows))
   \<and> (ci_name ra \<noteq> [] \<and> ci_email ra \<noteq> [] \<and> \<not> Customer_email_exists s (ci_email ra)
        \<and> valid_phone (or_empty (ci_phone ra))
        \<and> row_errs (add_customer s (new_customer s (ci_name ra) (ci_email ra) (or_None (ci_phone ra))))
             (Suc 0) rb \<noteq> []
        \<and> ci_name rc \<noteq> [] \<and> ci_email rc \<noteq> [] \<and> \<not> Customer_email_exists s (ci_email rc)
        \<and> ci_email rc \<noteq> ci_email ra \<and> valid_phone (or_empty (ci_phone rc))
      \<longrightarrow> BulkCreateCustomers_mutate s [ra, rb, rc] =
           (let c0 = new_customer s (ci_name ra) (ci_email ra) (or_None (ci_phone ra));
                s1 = add_customer s c0;
                c2 = new_customer s1 (ci_name rc) (ci_email rc) (or_None (ci_phone rc))
            in (add_customer s1 c2,
                \<lparr>bc_customers = [c0, c2], bc_errors = row_errs s1 (Suc 0) rb\<rparr>)))
   \<and> (ci_name ra \<noteq> [] \<and> ci_email ra \<noteq> [] \<and> \<not> Customer_email_exists s (ci_email ra)
        \<and> valid_phone (or_empty (ci_phone ra))
        \<and> ci_name rb \<noteq> [] \<and> ci_email rb \<noteq> [] \<and> valid_phone (or_empty (ci_phone rb))
        \<and> (Customer_email_exists s (ci_email rb) \<or> ci_email rb = ci_email ra)
        \<and> ci_name rc \<noteq> [] \<and> ci_email rc \<noteq> [] \<and> \<not> Customer_email_exists s (ci_email rc)
        \<and> ci_email rc \<noteq> ci_email ra \<and> valid_phone (or_empty (ci_phone rc))
      \<longrightarrow> BulkCreateCustomers_mutate s [ra, rb, rc] =
           (let c0 = new_customer s (ci_name ra) (ci_email ra) (or_None (ci_phone ra));
                s1 = add_customer s c0;
                c2 = new_customer s1 (ci_name rc) (ci_email rc) (or_None (ci_phone rc))
            in (add_customer s1 c2,
                \<lparr>bc_customers = [c0, c2],
                 bc_errors = [''Row 1: Email already exists ('' @ ci_email rb @ '').'']\<rparr>)))"
proof (intro conjI impI ballI)
  show "BulkCreateCustomers_mutate s [] = (s, \<lparr>bc_customers = [], bc_errors = []\<rparr>)"
    by (rule Bulk_Nil)
next
  show "BulkCreateCustomers_mutate s (rows @ [r]) =
       (case BulkCreateCustomers_mutate s rows of
          (s', p) \<Rightarrow>
            if row_errs s' (length rows) r = []
            then let c = new_customer s' (ci_name r) (ci_email r) (or_None (ci_phone r))
                 in (add_customer s' c, p\<lparr>bc_customers := bc_customers p @ [c]\<rparr>)
            else (s', p\<lparr>bc_errors := bc_errors p @ row_errs s' (length rows) r\<rparr>))"
    by (rule Bulk_snoc)
next
  show "row_errs s idx r = [] \<longleftrightarrow>
        ci_name r \<noteq> [] \<and> ci_email r \<noteq> [] \<and> \<not> Customer_email_exists s (ci_email r)
        \<and> valid_phone (or_empty (ci_phone r))"
    by (rule row_errs_Nil_iff)
next
  fix e assume "e \<in> set (row_errs s idx r)"
  then show "prefix (''Row '' @ str_nat idx @ '': '') e"
    using row_errs_tagged[of e s idx r] by (simp add: row_tag_def)
next
  obtain s' created errors where run: "bulk_loop 0 rows (s, [], []) = (s', created, errors)"
    by (cases "bulk_loop 0 rows (s, [], [])") auto
  from bulk_loop_store[OF run] have "customer_rows s' = customer_rows s @ created"
    by auto
  then show "customer_rows (fst (BulkCreateCustomers_mutate s rows)) =
             customer_rows s @ bc_customers (snd (BulkCreateCustomers_mutate s rows))"
    by (simp add: BulkCreateCustomers_mutate_def run)
next
  assume "ci_name ra \<noteq> [] \<and> ci_email ra \<noteq> [] \<and> \<not> Customer_email_exists s (ci_email ra)
        \<and> valid_phone (or_empty (ci_phone ra))
        \<and> row_errs (add_customer s (new_customer s (ci_name ra) (ci_email ra) (or_None (ci_phone ra))))
             (Suc 0) rb \<noteq> []
        \<and> ci_name rc \<noteq> [] \<and> ci_email rc \<noteq> [] \<and> \<not> Customer_email_exists s (ci_email rc)
        \<and> ci_email rc \<noteq> ci_email ra \<and> valid_phone (or_empty (ci_phone rc))"
  then show "BulkCreateCustomers_mutate s [ra, rb, rc] =
           (let c0 = new_customer s (ci_name ra) (ci_email ra) (or_None (ci_phone ra));
                s1 = add_customer s c0;
                c2 = new_customer s1 (ci_name rc) (ci_email rc) (or_None (ci_phone rc))
            in (add_customer s1 c2,
                \<lparr>bc_customers = [c0, c2], bc_errors = row_errs s1 (Suc 0) rb\<rparr>))"
    by (intro bulk_three_rows_any_failure) simp_all
next
  assume "ci_name ra \<noteq> [] \<and> ci_email ra \<noteq> [] \<and> \<not> Customer_email_exists s (ci_email ra)
        \<and> valid_phone (or_empty (ci_phone ra))
        \<and> ci_name rb \<noteq> [] \<and> ci_email rb \<noteq> [] \<and> valid_phone (or_empty (ci_phone rb))
        \<and> (Customer_email_exists s (ci_email rb) \<or> ci_email rb = ci_email ra)
        \<and> ci_name rc \<noteq> [] \<and> ci_email rc \<noteq> [] \<and> \<not> Customer_email_exists s (ci_email rc)
        \<and> ci_email rc \<noteq> ci_email ra \<and> valid_phone (or_empty (ci_phone rc))"
  then show "BulkCreateCustomers_mutate s [ra, rb, rc] =
           (let c0 = new_customer s (ci_name ra) (ci_email ra) (or_None (ci_phone ra));
                s1 = add_customer s c0;
                c2 = new_customer s1 (ci_name rc) (ci_email rc) (or_None (ci_phone rc))
            in (add_customer s1 c2,
                \<lparr>bc_customers = [c0, c2],
                 bc_errors = [''Row 1: Email already exists ('' @ ci_email rb @ '').'']\<rparr>))"
    by (intro bulk_three_rows) simp_all
qed

theorem BulkCreateCustomers_partial_success_witness:
  "BulkCreateCustomers_mutate example_store [bob_row, dup_row, carol_row] =
     (example_store\<lparr>customer_rows :=
        [alice,
         \<lparr>c_id = Some 2, c_name = ''Bob'', c_email = ''bob@example.com'',
          c_phone = Some ''123-456-7890''\<rparr>,
         \<lparr>c_id = Some 3, c_name = ''Carol'', c_email = ''carol@example.com'', c_phone = None\<rparr>]\<rparr>,
      \<lparr>bc_customers =
         [\<lparr>c_id = Some 2, c_name = ''Bob'', c_email = ''bob@example.com'',
           c_phone = Some ''123-456-7890''\<rparr>,
          \<lparr>c_id = Some 3, c_name = ''Carol'', c_email = ''carol@example.com'', c_phone = None\<rparr>],
       bc_errors = [''Row 1: Email already exists (alice@example.com).'']\<rparr>)
   \<and> BulkCreateCustomers_mutate example_store [bob_row, bad_phone_row, carol_row] =
     (example_store\<lparr>customer_rows :=
        [alice,
         \<lparr>c_id = Some 2, c_name = ''Bob'', c_email = ''bob@example.com'',
          c_phone = Some ''123-456-7890''\<rparr>,
         \<lparr>c_id = Some 3, c_name = ''Carol'', c_email = ''carol@example.com'', c_phone = None\<rparr>]\<rparr>,
      \<lparr>bc_customers =
         [\<lparr>c_id = Some 2, c_name = ''Bob'', c_email = ''bob@example.com'',
           c_phone = Some ''123-456-7890''\<rparr>,
          \<lparr>c_id = Some 3, c_name = ''Carol'', c_email = ''carol@example.com'', c_phone = None\<rparr>],
       bc_errors = [''Row 1: Invalid phone format (12345).'']\<rparr>)"
proof -
  have b: "ci_name bob_row \<noteq> [] \<and> ci_email bob_row \<noteq> []
      \<and> \<not> Customer_email_exists example_store (ci_email bob_row)
      \<and> valid_phone (or_empty (ci_phone bob_row))"
    by code_simp
  have d: "ci_name dup_row \<noteq> [] \<and> ci_email dup_row \<noteq> []
      \<and> valid_phone (or_empty (ci_phone dup_row))
      \<and> (Customer_email_exists example_store (ci_email dup_row) \<or> ci_email dup_row = ci_email bob_row)"
    by code_simp
  have f: "row_errs (add_customer example_store
             (new_customer example_store (ci_name bob_row) (ci_email bob_row) (or_None (ci_phone bob_row))))
             (Suc 0) bad_phone_row \<noteq> []"
    by code_simp
  have c: "ci_name carol_row \<noteq> [] \<and> ci_email carol_row \<noteq> []
      \<and> \<not> Customer_email_exists example_store (ci_email carol_row)
      \<and> ci_email carol_row \<noteq> ci_email bob_row
      \<and> valid_phone (or_empty (ci_phone carol_row))"
    by code_simp
  have r1: "BulkCreateCustomers_mutate example_store [bob_row, dup_row, carol_row] =
           (let c0 = new_customer example_store (ci_name bob_row) (ci_email bob_row)
                       (or_None (ci_phone bob_row));
                s1 = add_customer example_store c0;
                c2 = new_customer s1 (ci_name carol_row) (ci_email carol_row)
                       (or_None (ci_phone carol_row))
            in (add_customer s1 c2,
                \<lparr>bc_customers = [c0, c2],
                 bc_errors = [''Row 1: Email already exists ('' @ ci_email dup_row @ '').'']\<rparr>))"
    using BulkCreateCustomers_partial_success[where s = example_store and ra = bob_row
        and rb = dup_row and rc = carol_row] b d c
    by blast
  have r2: "BulkCreateCustomers_mutate example_store [bob_row, bad_phone_row, carol_row] =
           (let c0 = new_customer example_store (ci_name bob_row) (ci_email bob_row)
                       (or_None (ci_phone bob_row));
                s1 = add_customer example_store c0;
                c2 = new_customer s1 (ci_name carol_row) (ci_email carol_row)
                       (or_None (ci_phone carol_row))
            in (add_customer s1 c2,
                \<lparr>bc_customers = [c0, c2], bc_errors = row_errs s1 (Suc 0) bad_phone_row\<rparr>))"
    using BulkCreateCustomers_partial_success[where s = example_store and ra = bob_row
        and rb = bad_phone_row and rc = carol_row] b f c
    by blast
  have v1: "(let c0 = new_customer example_store (ci_name bob_row) (ci_email bob_row)
                       (or_None (ci_phone bob_row));
                s1 = add_customer example_store c0;
                c2 = new_customer s1 (ci_name carol_row) (ci_email carol_row)
                       (or_None (ci_phone carol_row))
            in (add_customer s1 c2,
                \<lparr>bc_customers = [c0, c2],
                 bc_errors = [''Row 1: Email already exists ('' @ ci_email dup_row @ '').'']\<rparr>)) =
     (example_store\<lparr>customer_rows :=
        [alice,
         \<lparr>c_id = Some 2, c_name = ''Bob'', c_email = ''bob@example.com'',
          c_phone = Some ''123-456-7890''\<rparr>,
         \<lparr>c_id = Some 3, c_name = ''Carol'', c_email = ''carol@example.com'', c_phone = None\<rparr>]\<rparr>,
      \<lparr>bc_customers =
         [\<lparr>c_id = Some 2, c_name = ''Bob'', c_email = ''bob@example.com'',
           c_phone = Some ''123-456-7890''\<rparr>,
          \<lparr>c_id = Some 3, c_name = ''Carol'', c_email = ''carol@example.com'', c_phone = None\<rparr>],
       bc_errors = [''Row 1: Email already exists (alice@example.com).'']\<rparr>)"
    by code_simp
  have v2: "(let c0 = new_customer example_store (ci_name bob_row) (ci_email bob_row)
                       (or_None (ci_phone bob_row));
                s1 = add_customer example_store c0;
                c2 = new_customer s1 (ci_name carol_row) (ci_email carol_row)
                       (or_None (ci_phone carol_row))
            in (add_customer s1 c2,
                \<lparr>bc_customers = [c0, c2], bc_errors = row_errs s1 (Suc 0) bad_phone_row\<rparr>)) =
     (example_store\<lparr>customer_rows :=
        [alice,
         \<lparr>c_id = Some 2, c_name = ''Bob'', c_email = ''bob@example.com'',
          c_phone = Some ''123-456-7890''\<rparr>,
         \<lparr>c_id = Some 3, c_name = ''Carol'', c_email = ''carol@example.com'', c_phone = None\<rparr>]\<rparr>,
      \<lparr>bc_customers =
         [\<lparr>c_id = Some 2, c_name = ''Bob'', c_email = ''bob@example.com'',
           c_phone = Some ''123-456-7890''\<rparr>,
          \<lparr>c_id = Some 3, c_name = ''Carol'', c_email = ''carol@example.com'', c_phone = None\<rparr>],
       bc_errors = [''Row 1: Invalid phone format (12345).'']\<rparr>)"
    by code_simp
  from r1 r2 v1 v2 show ?thesis by simp
qed

section \<open>Uniqueness of emails\<close>

lemma create_keeps_distinct:
  "distinct (map c_email (customer_rows s)) \<Longrightarrow> Customer_objects_create s n e p = Inr (s', c) \<Longrightarrow>
   distinct (map c_email (customer_rows s'))"
  by (auto simp: Customer_objects_create_def Customer_email_exists_def add_customer_def
      new_customer_def Let_def split: if_splits)

lemma CreateCustomer_keeps_distinct:
  "distinct (map c_email (customer_rows s)) \<Longrightarrow> CreateCustomer_mutate s inp = Inr (s', payload) \<Longrightarrow>
   distinct (map c_email (customer_rows s'))"
  by (auto simp: CreateCustomer_mutate_def Let_def split: if_splits sum.splits
      dest: create_keeps_distinct)

lemma bulk_loop_keeps_distinct:
  "distinct (map c_email (customer_rows s)) \<Longrightarrow>
   distinct (map c_email (customer_rows (fst (bulk_loop idx rows (s, created, errors)))))"
proof (induction rows arbitrary: idx s created errors)
  case Nil
  then show ?case by simp
next
  case (Cons r rows)
  show ?case
  proof (cases "row_errs s idx r = []")
    case False
    then show ?thesis using Cons by (simp add: Let_def)
  next
    case True
    show ?thesis
    proof (cases "Customer_objects_create s (ci_name r) (ci_email r) (or_None (ci_phone r))")
      case (Inl e)
      then show ?thesis using True Cons by (simp add: Let_def)
    next
      case (Inr sc)
      obtain s' c where sc: "sc = (s', c)" by (cases sc)
      have "distinct (map c_email (customer_rows s'))"
        using create_keeps_distinct[OF Cons.prems] Inr sc by simp
      from Cons.IH[OF this] show ?thesis using True Inr sc by (simp add: Let_def)
    qed
  qed
qed

lemma apply_request_keeps_distinct:
  assumes d: "distinct (map c_email (customer_rows s))"
  shows "distinct (map c_email (customer_rows (apply_request s r)))"
proof (cases r)
  case (ReqCreateCustomer inp)
  show ?thesis
  proof (cases "CreateCustomer_mutate s inp")
    case (Inl e)
    then show ?thesis using d ReqCreateCustomer by simp
  next
    case (Inr sp)
    then show ?thesis
      using ReqCreateCustomer CreateCustomer_keeps_distinct[OF d, of inp "fst sp" "snd sp"]
      by (cases sp) simp
  qed
next
  case (ReqBulkCreateCustomers rows)
  have "fst (BulkCreateCustomers_mutate s rows) = fst (bulk_loop 0 rows (s, [], []))"
    by (simp add: BulkCreateCustomers_mutate_def split: prod.splits)
  then show ?thesis using bulk_loop_keeps_distinct[OF d] ReqBulkCreateCustomers by simp
qed

text \<open>
  C7. Starting from a store whose customers have pairwise different emails, any sequence of
  \<^verbatim>\<open>CreateCustomer\<close> and \<^verbatim>\<open>BulkCreateCustomers\<close> requests, whether each of them
  creates something or not, ends in a store whose customers have pairwise different emails.
\<close>

theorem email_uniqueness_invariant:
  assumes "distinct (map c_email (customer_rows s))"
  shows "distinct (map c_email (customer_rows (apply_requests s rs)))"
  using assms unfolding apply_requests_def
  by (induction rs arbitrary: s) (simp_all add: apply_request_keeps_distinct)

theorem email_uniqueness_invariant_witness:
  "distinct (map c_email (customer_rows example_store))
   \<and> distinct (map c_email (customer_rows (apply_requests example_store
        [ReqCreateCustomer bob_row, ReqBulkCreateCustomers [bob_row, carol_row, dup_row],
         ReqCreateCustomer carol_row])))"
proof -
  have h: "distinct (map c_email (customer_rows example_store))"
    by code_simp
  from email_uniqueness_invariant[OF h] h show ?thesis by simp
qed

section \<open>Phone validation\<close>

text \<open>The states in which a bounded repetition can end.\<close>

lemma rep_mem:
  "(m, r) \<in> set (rep lo hi P (n, s)) \<longleftrightarrow>
     (\<exists>k. m = n + k \<and> r = drop k s \<and> lo \<le> k \<and> k \<le> hi \<and> k \<le> length s \<and> list_all P (take k s))"
proof (induction hi arbitrary: lo n s)
  case 0
  then show ?case by auto
next
  case (Suc hi)
  show ?case
  proof (cases s)
    case Nil
    then show ?thesis by auto
  next
    case (Cons c cs)
    show ?thesis
    proof
      assume "(m, r) \<in> set (rep lo (Suc hi) P (n, s))"
      then consider (step) "P c" "(m, r) \<in> set (rep (lo - 1) hi P (Suc n, cs))"
        | (stop) "lo = 0" "m = n" "r = s"
        using Cons by (auto split: if_splits)
      then show "\<exists>k. m = n + k \<and> r = drop k s \<and> lo \<le> k \<and> k \<le> Suc hi \<and> k \<le> length s \<and> list_all P (take k s)"
      proof cases
        case step
        from step(2) obtain k where "m = Suc n + k" "r = drop k cs" "lo - 1 \<le> k" "k \<le> hi"
            "k \<le> length cs" "list_all P (take k cs)"
          unfolding Suc.IH by blast
        then show ?thesis using step(1) Cons
          by (intro exI[of _ "Suc k"]) auto
      next
        case stop
        then show ?thesis by (intro exI[of _ 0]) auto
      qed
    next
      assume "\<exists>k. m = n + k \<and> r = drop k s \<and> lo \<le> k \<and> k \<le> Suc hi \<and> k \<le> length s \<and> list_all P (take k s)"
      then obtain k where k: "m = n + k" "r = drop k s" "lo \<le> k" "k \<le> Suc hi" "k \<le> length s"
          "list_all P (take k s)" by blast
      show "(m, r) \<in> set (rep lo (Suc hi) P (n, s))"
      proof (cases k)
        case 0
        then show ?thesis using k Cons by auto
      next
        case (Suc k')
        then have "P c" and "(m, r) \<in> set (rep (lo - 1) hi P (Suc n, cs))"
          using k Cons unfolding Suc.IH by auto
        then show ?thesis using Cons by auto
      qed
    qed
  qed
qed


lemma Digits_mem:
  "(m, r) \<in> set (rmatch (Digits lo hi) (n, s)) \<longleftrightarrow>
     (\<exists>a. s = a @ r \<and> lo \<le> length a \<and> length a \<le> hi \<and> list_all is_digit a \<and> m = n + length a)"
proof
  assume "(m, r) \<in> set (rmatch (Digits lo hi) (n, s))"
  then obtain k where k: "m = n + k" "r = drop k s" "lo \<le> k" "k \<le> hi" "k \<le> length s"
      "list_all is_digit (take k s)"
    by (auto simp: rep_mem)
  then show "\<exists>a. s = a @ r \<and> lo \<le> length a \<and> length a \<le> hi \<and> list_all is_digit a \<and> m = n + length a"
    by (intro exI[of _ "take k s"]) auto
next
  assume "\<exists>a. s = a @ r \<and> lo \<le> length a \<and> length a \<le> hi \<and> list_all is_digit a \<and> m = n + length a"
  then obtain a where "s = a @ r" "lo \<le> length a" "length a \<le> hi" "list_all is_digit a" "m = n + length a"
    by blast
  then show "(m, r) \<in> set (rmatch (Digits lo hi) (n, s))"
    by (auto simp: rep_mem intro!: exI[of _ "length a"])
qed

lemma Chr_mem: "(m, r) \<in> set (rmatch (Chr c) (n, s)) \<longleftrightarrow> s = c # r \<and> m = Suc n"
  by (auto split: list.splits)

lemma Seq_mem:
  "(m, r) \<in> set (rmatch (Seq a b) st) \<longleftrightarrow> (\<exists>m' r'. (m', r') \<in> set (rmatch a st) \<and> (m, r) \<in> set (rmatch b (m', r')))"
  by auto

lemma Eol_mem: "(m, r) \<in> set (rmatch Eol (n, s)) \<longleftrightarrow> m = n \<and> r = s \<and> (s = [] \<or> s = [LF])"
  by auto

lemma Bol_mem: "(m, r) \<in> set (rmatch Bol (n, s)) \<longleftrightarrow> m = n \<and> r = s \<and> n = 0"
  by auto

lemma plus_mem:
  "(m, r) \<in> set (rmatch (Seq (Chr CHR ''+'') (Digits 7 15)) (0, s)) \<longleftrightarrow>
     (\<exists>t. s = t @ r \<and> plus_form t \<and> m = length t)"
  unfolding Seq_mem Chr_mem Digits_mem plus_form_def
  by auto



lemma dash_mem:
  "(m, r) \<in> set (rmatch (Seq (Digits 3 3) (Seq (Chr CHR ''-'')
                   (Seq (Digits 3 3) (Seq (Chr CHR ''-'') (Digits 4 4))))) (0, s)) \<longleftrightarrow>
     (\<exists>t. s = t @ r \<and> dash_form t \<and> m = length t)"
  (is "?L \<longleftrightarrow> ?R")
proof
  assume ?L
  then obtain a b c r1 r2 r3 where
      a: "s = a @ r1" "length a = 3" "list_all is_digit a"
    and d1: "r1 = CHR ''-'' # r2"
    and b: "r2 = b @ r3" "length b = 3" "list_all is_digit b"
    and c: "r3 = CHR ''-'' # c @ r" "length c = 4" "list_all is_digit c"
    and m: "m = 12"
    unfolding Seq_mem Chr_mem Digits_mem by force
  have "s = (a @ CHR ''-'' # b @ CHR ''-'' # c) @ r"
    using a d1 b c by simp
  moreover have "dash_form (a @ CHR ''-'' # b @ CHR ''-'' # c)"
    unfolding dash_form_def using a b c by blast
  moreover have "m = length (a @ CHR ''-'' # b @ CHR ''-'' # c)"
    using a b c m by simp
  ultimately show ?R by blast
next
  assume ?R
  then obtain a b c where
      s: "s = a @ CHR ''-'' # b @ CHR ''-'' # c @ r"
    and len: "length a = 3" "length b = 3" "length c = 4"
    and dig: "list_all is_digit a" "list_all is_digit b" "list_all is_digit c"
    and m: "m = 12"
    unfolding dash_form_def by auto
  have 1: "(3, CHR ''-'' # b @ CHR ''-'' # c @ r) \<in> set (rmatch (Digits 3 3) (0, s))"
    unfolding Digits_mem using s len dig by (intro exI[of _ a]) simp
  have 2: "(4, b @ CHR ''-'' # c @ r) \<in> set (rmatch (Chr CHR ''-'') (3, CHR ''-'' # b @ CHR ''-'' # c @ r))"
    unfolding Chr_mem by simp
  have 3: "(7, CHR ''-'' # c @ r) \<in> set (rmatch (Digits 3 3) (4, b @ CHR ''-'' # c @ r))"
    unfolding Digits_mem using len dig by (intro exI[of _ b]) simp
  have 4: "(8, c @ r) \<in> set (rmatch (Chr CHR ''-'') (7, CHR ''-'' # c @ r))"
    unfolding Chr_mem by simp
  have 5: "(m, r) \<in> set (rmatch (Digits 4 4) (8, c @ r))"
    unfolding Digits_mem using len dig m by (intro exI[of _ c]) simp
  show ?L
    unfolding Seq_mem using 1 2 3 4 5 by blast
qed


lemma re_match_iff_mem: "re_match rx s \<longleftrightarrow> (\<exists>m r. (m, r) \<in> set (rmatch rx (0, s)))"
  unfolding re_match_def by (cases "rmatch rx (0, s)") (auto simp del: rmatch.simps)

lemma PHONE_RE_mem:
  "(m, r) \<in> set (rmatch PHONE_RE (0, s)) \<longleftrightarrow>
     ((m, r) \<in> set (rmatch (Seq (Chr CHR ''+'') (Digits 7 15)) (0, s))
        \<or> (m, r) \<in> set (rmatch (Seq (Digits 3 3) (Seq (Chr CHR ''-'')
                   (Seq (Digits 3 3) (Seq (Chr CHR ''-'') (Digits 4 4))))) (0, s)))
      \<and> (r = [] \<or> r = [LF])"
proof -
  let ?body = "Alt (Seq (Chr CHR ''+'') (Digits 7 15))
                 (Seq (Digits 3 3) (Seq (Chr CHR ''-'')
                   (Seq (Digits 3 3) (Seq (Chr CHR ''-'') (Digits 4 4)))))"
  have "(m, r) \<in> set (rmatch PHONE_RE (0, s)) \<longleftrightarrow> (m, r) \<in> set (rmatch (Seq ?body Eol) (0, s))"
    unfolding PHONE_RE_def by (subst Seq_mem) (simp only: Bol_mem, blast)
  also have "\<dots> \<longleftrightarrow> (m, r) \<in> set (rmatch ?body (0, s)) \<and> (r = [] \<or> r = [LF])"
    by (subst Seq_mem) (simp only: Eol_mem, blast)
  also have "(m, r) \<in> set (rmatch ?body (0, s)) \<longleftrightarrow>
     ((m, r) \<in> set (rmatch (Seq (Chr CHR ''+'') (Digits 7 15)) (0, s))
        \<or> (m, r) \<in> set (rmatch (Seq (Digits 3 3) (Seq (Chr CHR ''-'')
                   (Seq (Digits 3 3) (Seq (Chr CHR ''-'') (Digits 4 4))))) (0, s)))"
    by (simp only: rmatch.simps(4) set_append Un_iff)
  finally show ?thesis .
qed

lemma re_match_PHONE_RE:
  "re_match PHONE_RE s \<longleftrightarrow>
     (\<exists>t r. s = t @ r \<and> (plus_form t \<or> dash_form t) \<and> (r = [] \<or> r = [LF]))"
  unfolding re_match_iff_mem PHONE_RE_mem plus_mem dash_mem by blast


lemma phone_grammar_unfold:
  "phone_grammar s \<longleftrightarrow>
     (s \<noteq> [] \<and> hd s = CHR ''+'' \<and> 7 \<le> length (tl s) \<and> length (tl s) \<le> 15 \<and> list_all is_digit (tl s))
     \<or> (length s = 12 \<and> list_all is_digit (take 3 s) \<and> s ! 3 = CHR ''-''
              \<and> list_all is_digit (take 3 (drop 4 s)) \<and> s ! 7 = CHR ''-''
              \<and> list_all is_digit (drop 8 s))"
  unfolding phone_grammar_def by (cases s) auto

lemma plus_form_unfold:
  "plus_form s \<longleftrightarrow> s \<noteq> [] \<and> hd s = CHR ''+'' \<and> 7 \<le> length (tl s) \<and> length (tl s) \<le> 15 \<and> list_all is_digit (tl s)"
  unfolding plus_form_def by (cases s) auto

lemma dash_form_unfold:
  "dash_form s \<longleftrightarrow> length s = 12 \<and> list_all is_digit (take 3 s) \<and> s ! 3 = CHR ''-''
              \<and> list_all is_digit (take 3 (drop 4 s)) \<and> s ! 7 = CHR ''-''
              \<and> list_all is_digit (drop 8 s)"
  (is "?L \<longleftrightarrow> ?R")
proof
  assume ?L
  then obtain a b c where s: "s = a @ CHR ''-'' # b @ CHR ''-'' # c"
    and len: "length a = 3" "length b = 3" "length c = 4"
    and dig: "list_all is_digit a" "list_all is_digit b" "list_all is_digit c"
    unfolding dash_form_def by blast
  show ?R using len dig unfolding s by (simp add: nth_append)
next
  assume R: ?R
  let ?a = "take 3 s" and ?b = "take 3 (drop 4 s)" and ?c = "drop 8 s"
  have "s = take 3 s @ s ! 3 # drop 4 s"
    using R id_take_nth_drop[of 3 s] by simp
  moreover have "drop 4 s = take 3 (drop 4 s) @ drop 4 s ! 3 # drop 4 (drop 4 s)"
    using R id_take_nth_drop[of 3 "drop 4 s"] by simp
  moreover have "drop 4 s ! 3 = s ! 7" using R by simp
  ultimately have "s = ?a @ CHR ''-'' # ?b @ CHR ''-'' # ?c"
    using R by simp
  moreover have "length ?a = 3" "length ?b = 3" "length ?c = 4" using R by simp_all
  ultimately show ?L unfolding dash_form_def using R by blast
qed

lemma phone_grammar_forms: "phone_grammar s \<longleftrightarrow> plus_form s \<or> dash_form s"
  unfolding phone_grammar_unfold plus_form_unfold dash_form_unfold ..

text \<open>
  What \<^verbatim>\<open>_valid_phone\<close> accepts among the strings of code points below 256: the
  empty string, the strings of the grammar, and the strings of the grammar followed by one
  line feed. (Beyond 255, \<^verbatim>\<open>\d\<close> also takes the decimal digits of other scripts.)
\<close>

lemma valid_phone_iff:
  "valid_phone s \<longleftrightarrow> s = [] \<or> phone_grammar s \<or> (\<exists>t. s = t @ [LF] \<and> phone_grammar t)"
  unfolding valid_phone_def re_match_PHONE_RE phone_grammar_forms by auto

text \<open>
  C6 (fails on the code). The claim: a supplied phone is accepted if and only if it is
  empty or it is a string of the grammar (a plus sign and 7 to 15 digits, or three digits,
  hyphen, three digits, hyphen, four digits). The pattern ends in \<^verbatim>\<open>$\<close>, which
  Python lets hold before a final line feed as well: the eight characters \<^verbatim>\<open>+1234567\<close>
  followed by a line feed are accepted, and they are neither empty nor a string of the
  grammar.
\<close>

theorem valid_phone_accepts_trailing_newline:
  "valid_phone (''+1234567'' @ [LF]) \<and> ''+1234567'' @ [LF] \<noteq> []
   \<and> \<not> phone_grammar (''+1234567'' @ [LF])"
  by code_simp

section \<open>Order creation\<close>

text \<open>
  The first statement of the atomic block always raises: the new instance has the default
  total 0.00 and no key, so \<^verbatim>\<open>Order.save\<close> asks for its products before the
  inherited \<^verbatim>\<open>save\<close> has given it one.
\<close>

lemma Order_objects_create_raises: "Order_objects_create s c d = Inl ValueError"
  by (simp add: Order_objects_create_def Order_save_def Order_products_all_def)

lemma create_order_atomic_raises: "create_order_atomic s c d ps = Inl ValueError"
  by (simp add: create_order_atomic_def Order_objects_create_raises)

text \<open>Hence no call of \<^verbatim>\<open>CreateOrder.mutate\<close> returns an order or changes the store.\<close>

lemma CreateOrder_never_creates:
  "CreateOrder_mutate now s inp = Inr (s', payload) \<Longrightarrow> s' = s \<and> co_order payload = None"
  by (auto simp: CreateOrder_mutate_def create_order_atomic_raises Let_def
      split: sum.splits exn.splits if_splits)

lemma py_int_abc: "py_int ''abc'' = None"
  by code_simp

text \<open>
  A customer key that converts to an integer and belongs to no customer does take the
  short way out: one message naming the key, no order, the product keys not looked at.
\<close>

lemma CreateOrder_unknown_customer:
  assumes "py_int (oi_customer_id inp) = Some i"
      and "\<forall>c \<in> set (customer_rows s). map_option int (c_id c) \<noteq> Some i"
  shows "CreateOrder_mutate now s inp =
           Inr (s, \<lparr>co_order = None, co_errors = [''Invalid customer ID: '' @ oi_customer_id inp]\<rparr>)"
proof -
  have "filter (\<lambda>c. map_option int (c_id c) = Some i) (customer_rows s) = []"
    using assms(2) by (simp add: filter_empty_conv)
  then show ?thesis
    using assms(1) by (simp add: CreateOrder_mutate_def Customer_objects_get_def)
qed

text \<open>
  C4 (fails on the code). The claim: whenever the customer id does not resolve to an
  existing customer, the result is a null order with exactly one message naming the id,
  whatever the product list. The id is a \<^verbatim>\<open>graphene.ID\<close>, a string; for the id
  \<^verbatim>\<open>abc\<close>, which resolves to no customer in any store, the lookup raises
  \<^verbatim>\<open>ValueError\<close>, the handler catches \<^verbatim>\<open>Customer.DoesNotExist\<close> only, and the
  call raises instead of returning a payload. The product list is not looked at here
  either.
\<close>

theorem CreateOrder_nonnumeric_customer_id_raises:
  "CreateOrder_mutate now s \<lparr>oi_customer_id = ''abc'', oi_product_ids = pids, oi_order_date = d\<rparr>
     = Inl ValueError"
  by (simp add: CreateOrder_mutate_def Customer_objects_get_def py_int_abc)

text \<open>
  C5 (fails on the code). The claim: a successful \<^verbatim>\<open>CreateOrder\<close> stores the exact
  sum of the product prices, 15.50 for products priced 10.00 and 5.50. On the sample store
  the customer key 1 resolves, both product keys resolve and their prices sum to 15.50
  (1550 hundredths), but the call raises \<^verbatim>\<open>ValueError\<close> in
  \<^verbatim>\<open>Order.objects.create\<close> and no order exists afterwards.
\<close>

theorem CreateOrder_total_example_raises:
  "Customer_objects_get example_store ''1'' = Inr alice
   \<and> Product_objects_filter_id_in example_store [''1'', ''2''] = Inr (product_rows example_store)
   \<and> Sum_price (product_rows example_store) = Some 1550
   \<and> CreateOrder_mutate 0 example_store
         \<lparr>oi_customer_id = ''1'', oi_product_ids = [''1'', ''2''], oi_order_date = None\<rparr>
       = Inl ValueError"
  by code_simp

text \<open>
  C10 (fails on the code). The claim: with an existing product id given twice the
  operation succeeds, the order being linked to the product once and its price counted
  once. On the sample store the query for the keys 1, 1 does yield product 1 once and
  no key is missing, but the call raises \<^verbatim>\<open>ValueError\<close> in
  \<^verbatim>\<open>Order.objects.create\<close>, as for C5.
\<close>

theorem CreateOrder_repeated_product_raises:
  "Product_objects_filter_id_in example_store [''1'', ''1''] = Inr [hd (product_rows example_store)]
   \<and> CreateOrder_mutate 0 example_store
         \<lparr>oi_customer_id = ''1'', oi_product_ids = [''1'', ''1''], oi_order_date = None\<rparr>
       = Inl ValueError"
  by code_simp

section \<open>The custom filters\<close>













lemma set_filter_products_id:
  "set (filter_products_id s qs v) =
     {ord \<in> set qs. \<exists>r \<in> set (order_products_rows s). o_id ord = Some (fst r) \<and> int (snd r) = v}"
  by (auto simp: filter_products_id_def)

text \<open>
  C9. Given a product key, the product-id filter returns the orders of the queryset that
  the relation links to that product, and no others, each of them once; given no value it
  returns the queryset as it is.
\<close>

theorem filter_product_id_exact:
  "distinct (filter_product_id s qs (Some v))
   \<and> set (filter_product_id s qs (Some v)) =
       {ord \<in> set qs. \<exists>r \<in> set (order_products_rows s). o_id ord = Some (fst r) \<and> int (snd r) = v}
   \<and> filter_product_id s qs None = qs"
  by (simp add: filter_product_id_def set_filter_products_id)

theorem filter_product_id_exact_witness:
  "filter_product_id store_with_order [order_1, order_1] (Some 2) = [order_1]
   \<and> distinct (filter_product_id store_with_order [order_1, order_1] (Some 2))
   \<and> filter_product_id store_with_order [order_1, order_1] (Some 3) = []
   \<and> filter_product_id store_with_order [order_1, order_1] None = [order_1, order_1]"
proof -
  have v: "filter_product_id store_with_order [order_1, order_1] (Some 2) = [order_1]"
    by code_simp
  have e: "filter_product_id store_with_order [order_1, order_1] (Some 3) = []"
    by code_simp
  from filter_product_id_exact[of store_with_order "[order_1, order_1]" 2] v e
  show ?thesis by simp
qed

end
